theory Spec2Isabelle
  imports Complex_Main "HOL-Library.Signed_Division"
begin

section \<open>Data model\<close>

text \<open>
  The embedding follows \<^verbatim>\<open>src/graph.cpp\<close>: every function of the file that builds the
  graph is a definition below, under its own name. A builder call runs on one graph and
  returns the graph it leaves together with its result or the exception it throws.
\<close>

text \<open>
  Modelled from the spec: the header \<^verbatim>\<open>graph.h\<close>, which declares \<^verbatim>\<open>dim_t\<close>, \<^verbatim>\<open>Shape\<close>,
  \<^verbatim>\<open>Dims\<close>, \<^verbatim>\<open>GraphNodeHandle\<close>, the operation enumerations, \<^verbatim>\<open>GraphNode\<close> and \<^verbatim>\<open>Graph\<close>,
  is missing. The types follow section 3 of the specification and the way \<^verbatim>\<open>graph.cpp\<close>
  uses them:

  \<^item> The spec calls a shape ``an ordered sequence of signed integers'', so \<open>dim_t\<close> is
    \<open>int\<close>. The C++ operators \<^verbatim>\<open>%\<close> and \<^verbatim>\<open>/\<close> truncate towards zero: they are \<open>smod\<close> and
    \<open>sdiv\<close>, and a zero divisor is undefined behaviour, written out as the outcome
    \<open>Undefined\<close>. Arithmetic on \<open>dim_t\<close> is exact: products of dimension sizes that leave
    the range of the machine type (signed overflow, undefined in C++) are outside the
    model.
  \<^item> \<^verbatim>\<open>Shape\<close> and \<^verbatim>\<open>Dims\<close> are vectors of \<^verbatim>\<open>dim_t\<close> (they are indexed, sorted, erased
    from and pushed to).
  \<^item> A \<^verbatim>\<open>GraphNodeHandle\<close> is the pair \<^verbatim>\<open>{graph, node_idx}\<close>. One graph is modelled at a
    time and every handle given to a call is a handle on that graph, so a handle is its
    \<^verbatim>\<open>node_idx\<close>. Dereferencing an index that is not in the arena is undefined behaviour
    in C++ and the outcome \<open>Undefined\<close> here.
  \<^item> The payload of an \<^verbatim>\<open>Immediate\<close> is a \<^verbatim>\<open>float\<close>. Graph construction stores it and
    negates it and does nothing else with it; it is modelled as a \<open>real\<close>.
  \<^item> The enumerators \<^verbatim>\<open>UnaryOpType::EXP\<close>, \<^verbatim>\<open>BinaryOpType::MAX\<close>, \<^verbatim>\<open>ReduceOpType::MAX\<close>
    and so on carry the prefix \<open>U_\<close>, \<open>B_\<close>, \<open>R_\<close> of their enumeration.
  \<^item> \<open>arg_order\<close> is the order in which the compiler evaluates the arguments of a call
    where C++ leaves it open.
\<close>

type_synonym dim_t = int
type_synonym Shape = "dim_t list"
type_synonym Dims = "dim_t list"
type_synonym GraphNodeHandle = nat

datatype error = DomainError | Undefined

datatype UnaryOpType = U_EXP | U_LOG | U_SIN
datatype BinaryOpType = B_ADD | B_SUB | B_MUL | B_DIV | B_POW | B_CMP | B_MAX
datatype ReduceOpType = R_SUM | R_MAX

datatype arg_order = LeftToRight | RightToLeft

section \<open>Shape and stride algebra\<close>

definition FixDim :: "dim_t \<Rightarrow> dim_t \<Rightarrow> error + dim_t" where
  "FixDim d md =
     (if md = 0 then Inl Undefined else Inr (((d smod md) + md) smod md))"

text \<open>
  The loop of \<^verbatim>\<open>GetBroadcastedShape\<close> runs \<open>i\<close> over \<open>0 ..< size smaller\<close> and updates
  \<open>larger\<close> in place; the first incompatible pair throws.
\<close>

fun GetBroadcastedShape_loop :: "nat list \<Rightarrow> Shape \<Rightarrow> Shape \<Rightarrow> error + Shape" where
  "GetBroadcastedShape_loop [] smaller larger = Inr larger"
| "GetBroadcastedShape_loop (i # idxs) smaller larger =
     (if larger ! (length larger - i - 1) = 1 \<and> smaller ! (length smaller - i - 1) \<noteq> 1 then
        GetBroadcastedShape_loop idxs smaller
          (larger[length larger - i - 1 := smaller ! (length smaller - i - 1)])
      else if larger ! (length larger - i - 1) \<noteq> 1 \<and> smaller ! (length smaller - i - 1) = 1 then
        GetBroadcastedShape_loop idxs smaller larger
      else if larger ! (length larger - i - 1) = smaller ! (length smaller - i - 1) then
        GetBroadcastedShape_loop idxs smaller larger
      else Inl DomainError)"

definition GetBroadcastedShape :: "Shape \<Rightarrow> Shape \<Rightarrow> error + Shape" where
  "GetBroadcastedShape x y =
     (let larger = (if length x > length y then x else y);
          smaller = (if length x > length y then y else x)
      in GetBroadcastedShape_loop [0..<length smaller] smaller larger)"

text \<open>
  The loop of \<^verbatim>\<open>ComputeStrides\<close> runs \<open>i\<close> from the last index down to 0, overwriting the
  copy of the shape with the strides and carrying the running product \<open>cur\<close>.
\<close>

fun ComputeStrides_loop :: "nat list \<Rightarrow> dim_t \<Rightarrow> Shape \<Rightarrow> Shape" where
  "ComputeStrides_loop [] cur shp = shp"
| "ComputeStrides_loop (i # idxs) cur shp =
     ComputeStrides_loop idxs (cur * shp ! i) (shp[i := (if shp ! i = 1 then 0 else cur)])"

definition ComputeStrides :: "Shape \<Rightarrow> Shape" where
  "ComputeStrides shp = ComputeStrides_loop (rev [0..<length shp]) 1 shp"

text \<open>
  \<^verbatim>\<open>ComputeReducedShape\<close> reads the shape of the operand of the \<^verbatim>\<open>ReduceOp\<close>; here
  that shape is its first argument. \<^verbatim>\<open>shape[dim] = -1\<close> with \<^verbatim>\<open>dim\<close> outside the vector is
  undefined behaviour.
\<close>

fun ComputeReducedShape_mark :: "Dims \<Rightarrow> Shape \<Rightarrow> error + Shape" where
  "ComputeReducedShape_mark [] shp = Inr shp"
| "ComputeReducedShape_mark (d # dims) shp =
     (if 0 \<le> d \<and> d < int (length shp)
      then ComputeReducedShape_mark dims (shp[nat d := - 1])
      else Inl Undefined)"

definition ComputeReducedShape :: "Shape \<Rightarrow> Dims \<Rightarrow> bool \<Rightarrow> error + Shape" where
  "ComputeReducedShape x_shape dims keepdim =
     (if dims = [] then (if keepdim then Inr (map (\<lambda>_. 1) x_shape) else Inr [])
      else if length dims > length x_shape then Inl DomainError
      else (case ComputeReducedShape_mark dims x_shape of
              Inl e \<Rightarrow> Inl e
            | Inr shp \<Rightarrow>
                if \<not> keepdim then Inr (filter (\<lambda>d. d \<noteq> - 1) shp)
                else Inr (map (\<lambda>d. if d = - 1 then 1 else d) shp)))"

section \<open>The node arena\<close>

text \<open>
  A \<^verbatim>\<open>Tensor\<close> node carries a data pointer that graph construction never reads; it has no
  payload here.
\<close>

datatype NodeU =
    Tensor
  | Immediate real
  | UnaryOp UnaryOpType GraphNodeHandle
  | BinaryOp BinaryOpType GraphNodeHandle GraphNodeHandle
  | ReduceOp ReduceOpType GraphNodeHandle Dims bool
  | ViewOp GraphNodeHandle

record GraphNode =
  u :: NodeU
  shape :: Shape
  strides :: Shape

record Graph =
  inputs :: "nat list"
  nodes :: "GraphNode list"

text \<open>
  A builder call runs on the graph and mutates it. An exception leaves the graph as the
  call has changed it up to the \<^verbatim>\<open>throw\<close>, so a call returns the graph together with
  either the error or its result.
\<close>

type_synonym 'a build = "Graph \<Rightarrow> (error + 'a) \<times> Graph"

definition ret :: "'a \<Rightarrow> 'a build" where
  "ret a g = (Inr a, g)"

definition raise :: "error \<Rightarrow> 'a build" where
  "raise e g = (Inl e, g)"

definition lift :: "error + 'a \<Rightarrow> 'a build" where
  "lift r g = (r, g)"

definition bnd :: "'a build \<Rightarrow> ('a \<Rightarrow> 'b build) \<Rightarrow> 'b build" where
  "bnd m f g = (case m g of (Inl e, g') \<Rightarrow> (Inl e, g') | (Inr a, g') \<Rightarrow> f a g')"

definition GetNode :: "GraphNodeHandle \<Rightarrow> GraphNode build" where
  "GetNode h g =
     (if h < length (nodes g) then (Inr (nodes g ! h), g) else (Inl Undefined, g))"

definition handle_shape :: "GraphNodeHandle \<Rightarrow> Shape build" where
  "handle_shape h = bnd (GetNode h) (\<lambda>node. ret (shape node))"

definition handle_strides :: "GraphNodeHandle \<Rightarrow> Shape build" where
  "handle_strides h = bnd (GetNode h) (\<lambda>node. ret (strides node))"

definition AddNode :: "GraphNode \<Rightarrow> GraphNodeHandle build" where
  "AddNode node g = (Inr (length (nodes g)), g\<lparr>nodes := nodes g @ [node]\<rparr>)"

definition AddNode_Tensor :: "Shape \<Rightarrow> Shape \<Rightarrow> GraphNodeHandle build" where
  "AddNode_Tensor shp str = AddNode \<lparr>u = Tensor, shape = shp, strides = str\<rparr>"

definition AddNode_Immediate :: "real \<Rightarrow> GraphNodeHandle build" where
  "AddNode_Immediate imm = AddNode \<lparr>u = Immediate imm, shape = [], strides = []\<rparr>"

definition AddNode_UnaryOp :: "UnaryOpType \<Rightarrow> GraphNodeHandle \<Rightarrow> GraphNodeHandle build" where
  "AddNode_UnaryOp ty x =
     bnd (handle_shape x) (\<lambda>shp.
     bnd (handle_strides x) (\<lambda>str.
       AddNode \<lparr>u = UnaryOp ty x, shape = shp, strides = str\<rparr>))"

definition AddNode_BinaryOp ::
  "BinaryOpType \<Rightarrow> GraphNodeHandle \<Rightarrow> GraphNodeHandle \<Rightarrow> GraphNodeHandle build" where
  "AddNode_BinaryOp ty x y =
     bnd (handle_shape x) (\<lambda>x_shape.
     bnd (handle_shape y) (\<lambda>y_shape.
     bnd (lift (GetBroadcastedShape x_shape y_shape)) (\<lambda>shp.
       AddNode \<lparr>u = BinaryOp ty x y, shape = shp, strides = ComputeStrides shp\<rparr>)))"

definition AddNode_ReduceOp ::
  "ReduceOpType \<Rightarrow> GraphNodeHandle \<Rightarrow> Dims \<Rightarrow> bool \<Rightarrow> GraphNodeHandle build" where
  "AddNode_ReduceOp ty x dims keepdim =
     bnd (handle_shape x) (\<lambda>x_shape.
     bnd (lift (ComputeReducedShape x_shape dims keepdim)) (\<lambda>shp.
       AddNode \<lparr>u = ReduceOp ty x dims keepdim, shape = shp, strides = ComputeStrides shp\<rparr>))"

definition AddNode_ViewOp :: "GraphNodeHandle \<Rightarrow> Shape \<Rightarrow> Shape \<Rightarrow> GraphNodeHandle build" where
  "AddNode_ViewOp x shp str = AddNode \<lparr>u = ViewOp x, shape = shp, strides = str\<rparr>"

definition Graph_Immediate :: "real \<Rightarrow> GraphNodeHandle build" where
  "Graph_Immediate imm = AddNode_Immediate imm"

definition AddInput :: "Shape \<Rightarrow> GraphNodeHandle build" where
  "AddInput shp g =
     AddNode_Tensor shp (ComputeStrides shp) (g\<lparr>inputs := inputs g @ [length (nodes g)]\<rparr>)"

definition AddInput_dim :: "dim_t \<Rightarrow> GraphNodeHandle build" where
  "AddInput_dim d = AddInput [d]"

section \<open>View and reduction constructors\<close>

definition WrapInUnary :: "GraphNodeHandle \<Rightarrow> UnaryOpType \<Rightarrow> GraphNodeHandle build" where
  "WrapInUnary x ty = AddNode_UnaryOp ty x"

text \<open>The first loop of \<^verbatim>\<open>WrapInReduction\<close>: every axis goes through \<^verbatim>\<open>FixDim\<close>.\<close>

fun WrapInReduction_fix :: "Dims \<Rightarrow> dim_t \<Rightarrow> error + Dims" where
  "WrapInReduction_fix [] md = Inr []"
| "WrapInReduction_fix (d # dims) md =
     (case FixDim d md of
        Inl e \<Rightarrow> Inl e
      | Inr fd \<Rightarrow>
          (case WrapInReduction_fix dims md of
             Inl e \<Rightarrow> Inl e
           | Inr fds \<Rightarrow> Inr (fd # fds)))"

definition WrapInReduction ::
  "GraphNodeHandle \<Rightarrow> ReduceOpType \<Rightarrow> Dims \<Rightarrow> bool \<Rightarrow> GraphNodeHandle build" where
  "WrapInReduction x ty dims keepdim =
     bnd (handle_shape x) (\<lambda>x_shape.
     bnd (lift (WrapInReduction_fix dims (int (length x_shape)))) (\<lambda>fixed.
       AddNode_ReduceOp ty x (sort fixed) keepdim))"

definition sum_dims :: "GraphNodeHandle \<Rightarrow> Dims \<Rightarrow> bool \<Rightarrow> GraphNodeHandle build" where
  "sum_dims this dims keepdim = WrapInReduction this R_SUM dims keepdim"

definition sum_axis :: "GraphNodeHandle \<Rightarrow> dim_t \<Rightarrow> bool \<Rightarrow> GraphNodeHandle build" where
  "sum_axis this d keepdim = sum_dims this [d] keepdim"

definition sum_keepdim :: "GraphNodeHandle \<Rightarrow> bool \<Rightarrow> GraphNodeHandle build" where
  "sum_keepdim this keepdim =
     bnd (handle_shape this) (\<lambda>shp. sum_dims this (map int [0..<length shp]) keepdim)"

definition max_dims :: "GraphNodeHandle \<Rightarrow> Dims \<Rightarrow> bool \<Rightarrow> GraphNodeHandle build" where
  "max_dims this dims keepdim = WrapInReduction this R_MAX dims keepdim"

definition max_axis :: "GraphNodeHandle \<Rightarrow> dim_t \<Rightarrow> bool \<Rightarrow> GraphNodeHandle build" where
  "max_axis this d keepdim = max_dims this [d] keepdim"

definition max_keepdim :: "GraphNodeHandle \<Rightarrow> bool \<Rightarrow> GraphNodeHandle build" where
  "max_keepdim this keepdim =
     bnd (handle_shape this) (\<lambda>shp. max_dims this (map int [0..<length shp]) keepdim)"

text \<open>
  \<^verbatim>\<open>reshape\<close>: \<^verbatim>\<open>std::accumulate\<close> is a left fold; the division that solves the
  implicit dimension is undefined for a zero divisor.
\<close>

definition reshape :: "GraphNodeHandle \<Rightarrow> Shape \<Rightarrow> GraphNodeHandle build" where
  "reshape this new_shape =
     bnd (handle_shape this) (\<lambda>input_shape.
       let num_elements = foldl (\<lambda>a b. a * b) 1 input_shape;
           num_implicit_dims = count_list new_shape (- 1)
       in if num_implicit_dims = 0 then
            (let new_num_elements = foldl (\<lambda>a b. a * b) 1 new_shape
             in if new_num_elements \<noteq> num_elements then raise DomainError
                else AddNode_ViewOp this new_shape (ComputeStrides new_shape))
          else if num_implicit_dims > 1 then raise DomainError
          else
            (let num_elems_not_including_implicit_dim =
                   foldl (\<lambda>x y. if y = - 1 then x else x * y) 1 new_shape
             in if num_elems_not_including_implicit_dim = 0 then raise Undefined
                else
                  (let remaining_dim = num_elements sdiv num_elems_not_including_implicit_dim;
                       solved = map (\<lambda>x. if x = - 1 then remaining_dim else x) new_shape
                   in AddNode_ViewOp this solved (ComputeStrides solved))))"

definition reshape_length :: "GraphNodeHandle \<Rightarrow> dim_t \<Rightarrow> GraphNodeHandle build" where
  "reshape_length this len = reshape this [len]"

text \<open>
  The loop of \<^verbatim>\<open>permute\<close>: axis \<open>i\<close> of the input goes to position
  \<^verbatim>\<open>FixDim(dims[i])\<close> of the new shape, and a position used twice throws.
\<close>

fun permute_loop ::
  "nat list \<Rightarrow> Dims \<Rightarrow> Shape \<Rightarrow> bool list \<Rightarrow> Shape \<Rightarrow> error + Shape" where
  "permute_loop [] dims shp uniqueness new_shape = Inr new_shape"
| "permute_loop (i # idxs) dims shp uniqueness new_shape =
     (case FixDim (dims ! i) (int (length shp)) of
        Inl e \<Rightarrow> Inl e
      | Inr fixed_dim \<Rightarrow>
          if uniqueness ! nat fixed_dim then Inl DomainError
          else permute_loop idxs dims shp (uniqueness[nat fixed_dim := True])
                 (new_shape[nat fixed_dim := shp ! i]))"

definition permute :: "GraphNodeHandle \<Rightarrow> Dims \<Rightarrow> GraphNodeHandle build" where
  "permute this dims =
     bnd (handle_shape this) (\<lambda>shp.
       if length dims \<noteq> length shp then raise DomainError
       else
         bnd (lift (permute_loop [0..<length shp] dims shp
                      (replicate (length shp) False) (replicate (length shp) 0)))
           (\<lambda>new_shape. AddNode_ViewOp this new_shape (ComputeStrides new_shape)))"

definition transpose_h :: "GraphNodeHandle \<Rightarrow> GraphNodeHandle build" where
  "transpose_h this =
     bnd (handle_shape this) (\<lambda>shp. permute this (rev (map int [0..<length shp])))"

section \<open>Expression builder\<close>

text \<open>
  The overloads of an operator are told apart by a suffix: \<open>hh\<close> takes two handles,
  \<open>fh\<close> a float and a handle, \<open>hf\<close> a handle and a float.
\<close>

definition exp_h :: "GraphNodeHandle \<Rightarrow> GraphNodeHandle build" where
  "exp_h x = WrapInUnary x U_EXP"

definition log_h :: "GraphNodeHandle \<Rightarrow> GraphNodeHandle build" where
  "log_h x = WrapInUnary x U_LOG"

definition sin_h :: "GraphNodeHandle \<Rightarrow> GraphNodeHandle build" where
  "sin_h x = WrapInUnary x U_SIN"

definition op_add_hh :: "GraphNodeHandle \<Rightarrow> GraphNodeHandle \<Rightarrow> GraphNodeHandle build" where
  "op_add_hh x y = AddNode_BinaryOp B_ADD x y"

definition op_add_fh :: "real \<Rightarrow> GraphNodeHandle \<Rightarrow> GraphNodeHandle build" where
  "op_add_fh x y = bnd (AddNode_Immediate x) (\<lambda>xnode. op_add_hh xnode y)"

definition op_add_hf :: "GraphNodeHandle \<Rightarrow> real \<Rightarrow> GraphNodeHandle build" where
  "op_add_hf x y = op_add_fh y x"

definition op_sub_hh :: "GraphNodeHandle \<Rightarrow> GraphNodeHandle \<Rightarrow> GraphNodeHandle build" where
  "op_sub_hh x y = AddNode_BinaryOp B_SUB x y"

definition op_sub_fh :: "real \<Rightarrow> GraphNodeHandle \<Rightarrow> GraphNodeHandle build" where
  "op_sub_fh x y = op_add_fh (- x) y"

definition op_sub_hf :: "GraphNodeHandle \<Rightarrow> real \<Rightarrow> GraphNodeHandle build" where
  "op_sub_hf x y = op_add_hf x (- y)"

definition op_mul_hh :: "GraphNodeHandle \<Rightarrow> GraphNodeHandle \<Rightarrow> GraphNodeHandle build" where
  "op_mul_hh x y = AddNode_BinaryOp B_MUL x y"

definition op_mul_fh :: "real \<Rightarrow> GraphNodeHandle \<Rightarrow> GraphNodeHandle build" where
  "op_mul_fh x y = bnd (AddNode_Immediate x) (\<lambda>xnode. op_mul_hh xnode y)"

definition op_mul_hf :: "GraphNodeHandle \<Rightarrow> real \<Rightarrow> GraphNodeHandle build" where
  "op_mul_hf x y = op_mul_fh y x"

definition op_neg :: "GraphNodeHandle \<Rightarrow> GraphNodeHandle build" where
  "op_neg x = op_mul_fh (- 1) x"

definition op_div_hh :: "GraphNodeHandle \<Rightarrow> GraphNodeHandle \<Rightarrow> GraphNodeHandle build" where
  "op_div_hh x y = AddNode_BinaryOp B_DIV x y"

definition op_div_fh :: "real \<Rightarrow> GraphNodeHandle \<Rightarrow> GraphNodeHandle build" where
  "op_div_fh x y = bnd (AddNode_Immediate x) (\<lambda>xnode. op_div_hh xnode y)"

definition op_div_hf :: "GraphNodeHandle \<Rightarrow> real \<Rightarrow> GraphNodeHandle build" where
  "op_div_hf x y = bnd (AddNode_Immediate y) (\<lambda>ynode. op_div_hh x ynode)"

definition op_pow_hf :: "GraphNodeHandle \<Rightarrow> real \<Rightarrow> GraphNodeHandle build" where
  "op_pow_hf x y = bnd (AddNode_Immediate y) (\<lambda>ynode. AddNode_BinaryOp B_POW x ynode)"

definition op_eq_hh :: "GraphNodeHandle \<Rightarrow> GraphNodeHandle \<Rightarrow> GraphNodeHandle build" where
  "op_eq_hh x y = AddNode_BinaryOp B_CMP x y"

definition op_eq_fh :: "real \<Rightarrow> GraphNodeHandle \<Rightarrow> GraphNodeHandle build" where
  "op_eq_fh x y = bnd (AddNode_Immediate x) (\<lambda>xnode. op_eq_hh xnode y)"

definition op_eq_hf :: "GraphNodeHandle \<Rightarrow> real \<Rightarrow> GraphNodeHandle build" where
  "op_eq_hf x y = op_eq_fh y x"

definition max_hh :: "GraphNodeHandle \<Rightarrow> GraphNodeHandle \<Rightarrow> GraphNodeHandle build" where
  "max_hh x y = AddNode_BinaryOp B_MAX x y"

definition max_fh :: "real \<Rightarrow> GraphNodeHandle \<Rightarrow> GraphNodeHandle build" where
  "max_fh x y = bnd (AddNode_Immediate x) (\<lambda>xnode. max_hh xnode y)"

definition max_hf :: "GraphNodeHandle \<Rightarrow> real \<Rightarrow> GraphNodeHandle build" where
  "max_hf x y = max_fh y x"

text \<open>
  \<^verbatim>\<open>min(x, y)\<close> on two handles is \<^verbatim>\<open>-max(-x, -y)\<close>. C++ leaves open which of the two
  arguments \<^verbatim>\<open>-x\<close> and \<^verbatim>\<open>-y\<close> is evaluated first, and both append nodes: the order
  the compiler has chosen is the parameter \<open>ord\<close>. In the other two overloads one of
  the two negations is a negation of a float and appends nothing.
\<close>

definition min_hh ::
  "arg_order \<Rightarrow> GraphNodeHandle \<Rightarrow> GraphNodeHandle \<Rightarrow> GraphNodeHandle build" where
  "min_hh ord x y =
     (case ord of
        LeftToRight \<Rightarrow>
          bnd (op_neg x) (\<lambda>nx. bnd (op_neg y) (\<lambda>ny. bnd (max_hh nx ny) op_neg))
      | RightToLeft \<Rightarrow>
          bnd (op_neg y) (\<lambda>ny. bnd (op_neg x) (\<lambda>nx. bnd (max_hh nx ny) op_neg)))"

definition min_fh :: "real \<Rightarrow> GraphNodeHandle \<Rightarrow> GraphNodeHandle build" where
  "min_fh x y = bnd (op_neg y) (\<lambda>ny. bnd (max_fh (- x) ny) op_neg)"

definition min_hf :: "GraphNodeHandle \<Rightarrow> real \<Rightarrow> GraphNodeHandle build" where
  "min_hf x y = bnd (op_neg x) (\<lambda>nx. bnd (max_hf nx (- y)) op_neg)"

definition op_gt_hf :: "GraphNodeHandle \<Rightarrow> real \<Rightarrow> GraphNodeHandle build" where
  "op_gt_hf x y = bnd (max_hf x y) (\<lambda>m. op_eq_hh m x)"

definition op_gt_fh :: "real \<Rightarrow> GraphNodeHandle \<Rightarrow> GraphNodeHandle build" where
  "op_gt_fh x y = bnd (max_fh x y) (\<lambda>m. op_eq_hf m x)"

definition op_gt_hh :: "GraphNodeHandle \<Rightarrow> GraphNodeHandle \<Rightarrow> GraphNodeHandle build" where
  "op_gt_hh x y = bnd (max_hh x y) (\<lambda>m. op_eq_hh m x)"

definition op_lt_hf :: "GraphNodeHandle \<Rightarrow> real \<Rightarrow> GraphNodeHandle build" where
  "op_lt_hf x y = op_gt_fh y x"

definition op_lt_fh :: "real \<Rightarrow> GraphNodeHandle \<Rightarrow> GraphNodeHandle build" where
  "op_lt_fh x y = op_gt_hf y x"

definition op_lt_hh :: "GraphNodeHandle \<Rightarrow> GraphNodeHandle \<Rightarrow> GraphNodeHandle build" where
  "op_lt_hh x y = op_gt_hh y x"

definition op_le_hf :: "GraphNodeHandle \<Rightarrow> real \<Rightarrow> GraphNodeHandle build" where
  "op_le_hf x y = bnd (op_sub_hf x y) (\<lambda>d. bnd (max_hf d 0) (\<lambda>m. op_eq_hf m 0))"

definition op_le_fh :: "real \<Rightarrow> GraphNodeHandle \<Rightarrow> GraphNodeHandle build" where
  "op_le_fh x y = bnd (op_sub_fh x y) (\<lambda>d. bnd (max_hf d 0) (\<lambda>m. op_eq_hf m 0))"

definition op_le_hh :: "GraphNodeHandle \<Rightarrow> GraphNodeHandle \<Rightarrow> GraphNodeHandle build" where
  "op_le_hh x y = bnd (op_sub_hh x y) (\<lambda>d. bnd (max_hf d 0) (\<lambda>m. op_eq_hf m 0))"

definition op_ge_hf :: "GraphNodeHandle \<Rightarrow> real \<Rightarrow> GraphNodeHandle build" where
  "op_ge_hf x y = bnd (op_sub_hf x y) (\<lambda>d. bnd (min_hf d 0) (\<lambda>m. op_eq_hf m 0))"

definition op_ge_fh :: "real \<Rightarrow> GraphNodeHandle \<Rightarrow> GraphNodeHandle build" where
  "op_ge_fh x y = bnd (op_sub_fh x y) (\<lambda>d. bnd (min_hf d 0) (\<lambda>m. op_eq_hf m 0))"

definition op_ge_hh :: "GraphNodeHandle \<Rightarrow> GraphNodeHandle \<Rightarrow> GraphNodeHandle build" where
  "op_ge_hh x y = bnd (op_sub_hh x y) (\<lambda>d. bnd (min_hf d 0) (\<lambda>m. op_eq_hf m 0))"

definition pow_hf :: "GraphNodeHandle \<Rightarrow> real \<Rightarrow> GraphNodeHandle build" where
  "pow_hf x y = bnd (AddNode_Immediate y) (\<lambda>ynode. AddNode_BinaryOp B_POW x ynode)"

definition pow_fh :: "real \<Rightarrow> GraphNodeHandle \<Rightarrow> GraphNodeHandle build" where
  "pow_fh x y = bnd (AddNode_Immediate x) (\<lambda>xnode. AddNode_BinaryOp B_POW xnode y)"

definition pow_hh :: "GraphNodeHandle \<Rightarrow> GraphNodeHandle \<Rightarrow> GraphNodeHandle build" where
  "pow_hh x y = AddNode_BinaryOp B_POW x y"

definition cos_h :: "GraphNodeHandle \<Rightarrow> GraphNodeHandle build" where
  "cos_h x = bnd (op_add_hf x (3.14159265 / 2.0)) (\<lambda>s. WrapInUnary s U_SIN)"

definition sigmoid :: "GraphNodeHandle \<Rightarrow> GraphNodeHandle build" where
  "sigmoid x =
     bnd (op_neg x) (\<lambda>nx. bnd (exp_h nx) (\<lambda>e. bnd (op_add_fh 1.0 e) (\<lambda>s. op_div_fh 1.0 s)))"

definition min_keepdim :: "GraphNodeHandle \<Rightarrow> bool \<Rightarrow> GraphNodeHandle build" where
  "min_keepdim x keepdim = bnd (op_neg x) (\<lambda>nx. bnd (max_keepdim nx keepdim) op_neg)"

definition min_axis :: "GraphNodeHandle \<Rightarrow> dim_t \<Rightarrow> bool \<Rightarrow> GraphNodeHandle build" where
  "min_axis x axis keepdim = bnd (op_neg x) (\<lambda>nx. bnd (max_axis nx axis keepdim) op_neg)"

definition min_dims :: "GraphNodeHandle \<Rightarrow> Dims \<Rightarrow> bool \<Rightarrow> GraphNodeHandle build" where
  "min_dims x dims keepdim = bnd (op_neg x) (\<lambda>nx. bnd (max_dims nx dims keepdim) op_neg)"

text \<open>
  \<^verbatim>\<open>matmul\<close>; \<^verbatim>\<open>x_shape.insert(begin, 1)\<close> prepends, \<^verbatim>\<open>y_shape.insert(end - 2, 1)\<close>
  puts the unit axis before the last two, \<^verbatim>\<open>*(end - 2)\<close> reads the second-to-last.
\<close>

definition matmul :: "GraphNodeHandle \<Rightarrow> GraphNodeHandle \<Rightarrow> GraphNodeHandle build" where
  "matmul this y =
     bnd (handle_shape this) (\<lambda>x_shape0.
     bnd (handle_shape y) (\<lambda>y_shape0.
       let x_shape1 = (if length x_shape0 = 1 then 1 # x_shape0 else x_shape0);
           y_shape1 = (if length y_shape0 = 1 then y_shape0 @ [1] else y_shape0)
       in if length x_shape1 < 2 \<or> length y_shape1 < 2 then raise DomainError
          else
            (let x_shape = x_shape1 @ [1];
                 y_shape = take (length y_shape1 - 2) y_shape1 @ 1 # drop (length y_shape1 - 2) y_shape1
             in if x_shape ! (length x_shape - 2) \<noteq> y_shape ! (length y_shape - 2)
                then raise DomainError
                else
                  bnd (reshape this x_shape) (\<lambda>x_reshaped.
                  bnd (reshape y y_shape) (\<lambda>y_reshaped.
                  bnd (op_mul_hh x_reshaped y_reshaped) (\<lambda>elementwise_mul.
                    sum_axis elementwise_mul (- 2) False))))))"

section \<open>The public entry points\<close>

text \<open>
  The entry points through which a graph is built: \<^verbatim>\<open>Graph::Immediate\<close>,
  \<^verbatim>\<open>Graph::AddInput\<close>, and the operators and named functions on handles. A free function
  that only forwards to the member function of the same name (\<^verbatim>\<open>sum(x, dims, keepdim)\<close>,
  \<^verbatim>\<open>reshape(x, shape)\<close>, \<^verbatim>\<open>permute\<close>, \<^verbatim>\<open>transpose\<close>, \<^verbatim>\<open>matmul\<close> and \<^verbatim>\<open>operator%\<close>) is
  the same call as the member function.
\<close>

datatype operands =
    HH GraphNodeHandle GraphNodeHandle
  | FH real GraphNodeHandle
  | HF GraphNodeHandle real

datatype binary_fn =
  Op_add | Op_sub | Op_mul | Op_div | Op_eq | Op_lt | Op_le | Op_gt | Op_ge
  | Fn_max | Fn_min | Fn_pow

datatype unary_fn = Fn_exp | Fn_log | Fn_sin | Fn_cos | Fn_sigmoid | Op_neg | Fn_transpose

datatype reduce_fn = Fn_sum | Fn_reduce_max | Fn_reduce_min

datatype reduce_args = Keepdim bool | Axis dim_t bool | DimList Dims bool

datatype call =
    Call_Immediate real
  | Call_AddInput Shape
  | Call_AddInput_dim dim_t
  | Call_unary unary_fn GraphNodeHandle
  | Call_binary binary_fn operands
  | Call_op_pow GraphNodeHandle real
  | Call_reduce reduce_fn GraphNodeHandle reduce_args
  | Call_reshape GraphNodeHandle Shape
  | Call_reshape_length GraphNodeHandle dim_t
  | Call_permute GraphNodeHandle Dims
  | Call_matmul GraphNodeHandle GraphNodeHandle

fun run_unary :: "unary_fn \<Rightarrow> GraphNodeHandle \<Rightarrow> GraphNodeHandle build" where
  "run_unary Fn_exp x = exp_h x"
| "run_unary Fn_log x = log_h x"
| "run_unary Fn_sin x = sin_h x"
| "run_unary Fn_cos x = cos_h x"
| "run_unary Fn_sigmoid x = sigmoid x"
| "run_unary Op_neg x = op_neg x"
| "run_unary Fn_transpose x = transpose_h x"

fun run_binary :: "arg_order \<Rightarrow> binary_fn \<Rightarrow> operands \<Rightarrow> GraphNodeHandle build" where
  "run_binary ord Op_add (HH x y) = op_add_hh x y"
| "run_binary ord Op_add (FH x y) = op_add_fh x y"
| "run_binary ord Op_add (HF x y) = op_add_hf x y"
| "run_binary ord Op_sub (HH x y) = op_sub_hh x y"
| "run_binary ord Op_sub (FH x y) = op_sub_fh x y"
| "run_binary ord Op_sub (HF x y) = op_sub_hf x y"
| "run_binary ord Op_mul (HH x y) = op_mul_hh x y"
| "run_binary ord Op_mul (FH x y) = op_mul_fh x y"
| "run_binary ord Op_mul (HF x y) = op_mul_hf x y"
| "run_binary ord Op_div (HH x y) = op_div_hh x y"
| "run_binary ord Op_div (FH x y) = op_div_fh x y"
| "run_binary ord Op_div (HF x y) = op_div_hf x y"
| "run_binary ord Op_eq (HH x y) = op_eq_hh x y"
| "run_binary ord Op_eq (FH x y) = op_eq_fh x y"
| "run_binary ord Op_eq (HF x y) = op_eq_hf x y"
| "run_binary ord Op_lt (HH x y) = op_lt_hh x y"
| "run_binary ord Op_lt (FH x y) = op_lt_fh x y"
| "run_binary ord Op_lt (HF x y) = op_lt_hf x y"
| "run_binary ord Op_le (HH x y) = op_le_hh x y"
| "run_binary ord Op_le (FH x y) = op_le_fh x y"
| "run_binary ord Op_le (HF x y) = op_le_hf x y"
| "run_binary ord Op_gt (HH x y) = op_gt_hh x y"
| "run_binary ord Op_gt (FH x y) = op_gt_fh x y"
| "run_binary ord Op_gt (HF x y) = op_gt_hf x y"
| "run_binary ord Op_ge (HH x y) = op_ge_hh x y"
| "run_binary ord Op_ge (FH x y) = op_ge_fh x y"
| "run_binary ord Op_ge (HF x y) = op_ge_hf x y"
| "run_binary ord Fn_max (HH x y) = max_hh x y"
| "run_binary ord Fn_max (FH x y) = max_fh x y"
| "run_binary ord Fn_max (HF x y) = max_hf x y"
| "run_binary ord Fn_min (HH x y) = min_hh ord x y"
| "run_binary ord Fn_min (FH x y) = min_fh x y"
| "run_binary ord Fn_min (HF x y) = min_hf x y"
| "run_binary ord Fn_pow (HH x y) = pow_hh x y"
| "run_binary ord Fn_pow (FH x y) = pow_fh x y"
| "run_binary ord Fn_pow (HF x y) = pow_hf x y"

fun run_reduce :: "reduce_fn \<Rightarrow> GraphNodeHandle \<Rightarrow> reduce_args \<Rightarrow> GraphNodeHandle build" where
  "run_reduce Fn_sum x (Keepdim k) = sum_keepdim x k"
| "run_reduce Fn_sum x (Axis d k) = sum_axis x d k"
| "run_reduce Fn_sum x (DimList ds k) = sum_dims x ds k"
| "run_reduce Fn_reduce_max x (Keepdim k) = max_keepdim x k"
| "run_reduce Fn_reduce_max x (Axis d k) = max_axis x d k"
| "run_reduce Fn_reduce_max x (DimList ds k) = max_dims x ds k"
| "run_reduce Fn_reduce_min x (Keepdim k) = min_keepdim x k"
| "run_reduce Fn_reduce_min x (Axis d k) = min_axis x d k"
| "run_reduce Fn_reduce_min x (DimList ds k) = min_dims x ds k"

fun run :: "arg_order \<Rightarrow> call \<Rightarrow> GraphNodeHandle build" where
  "run ord (Call_Immediate imm) = Graph_Immediate imm"
| "run ord (Call_AddInput shp) = AddInput shp"
| "run ord (Call_AddInput_dim d) = AddInput_dim d"
| "run ord (Call_unary f x) = run_unary f x"
| "run ord (Call_binary f xy) = run_binary ord f xy"
| "run ord (Call_op_pow x y) = op_pow_hf x y"
| "run ord (Call_reduce f x args) = run_reduce f x args"
| "run ord (Call_reshape x shp) = reshape x shp"
| "run ord (Call_reshape_length x len) = reshape_length x len"
| "run ord (Call_permute x dims) = permute x dims"
| "run ord (Call_matmul x y) = matmul x y"

definition empty_graph :: Graph where
  "empty_graph = \<lparr>inputs = [], nodes = []\<rparr>"

text \<open>
  A graph built through the public entry points: the calls run one after the other from
  the empty graph. A call that throws leaves the graph to the caller, who goes on with
  it; after a call whose behaviour is undefined nothing is known, and there is no graph.
\<close>

fun build_from :: "arg_order \<Rightarrow> call list \<Rightarrow> Graph \<Rightarrow> Graph option" where
  "build_from ord [] g = Some g"
| "build_from ord (c # cs) g =
     (case run ord c g of
        (Inl Undefined, g') \<Rightarrow> None
      | (Inl DomainError, g') \<Rightarrow> build_from ord cs g'
      | (Inr h, g') \<Rightarrow> build_from ord cs g')"

section \<open>The algebra as the specification words it\<close>

text \<open>
  The broadcast rule of the specification: the two shapes are aligned at the right; an
  aligned pair gives the other side if one side is 1, the common value if both are equal,
  and is an error otherwise; the leading dimensions of the longer shape are kept.
\<close>

definition broadcast_pair :: "dim_t \<Rightarrow> dim_t \<Rightarrow> error + dim_t" where
  "broadcast_pair a b =
     (if a = 1 then Inr b else if b = 1 then Inr a else if a = b then Inr a
      else Inl DomainError)"

fun broadcast_aligned :: "Shape \<Rightarrow> Shape \<Rightarrow> error + Shape" where
  "broadcast_aligned (a # as) (b # bs) =
     (case broadcast_pair a b of
        Inl e \<Rightarrow> Inl e
      | Inr d \<Rightarrow>
          (case broadcast_aligned as bs of
             Inl e \<Rightarrow> Inl e
           | Inr ds \<Rightarrow> Inr (d # ds)))"
| "broadcast_aligned as bs = Inr []"

definition BroadcastShapes :: "Shape \<Rightarrow> Shape \<Rightarrow> error + Shape" where
  "BroadcastShapes a b =
     (let longer = (if length b \<le> length a then a else b);
          shorter = (if length b \<le> length a then b else a);
          k = length longer - length shorter
      in case broadcast_aligned (drop k longer) shorter of
           Inl e \<Rightarrow> Inl e
         | Inr ds \<Rightarrow> Inr (take k longer @ ds))"

text \<open>
  Canonical strides as the specification words them: the stride of a dimension is the
  product of the sizes to its right, and a dimension of size 1 has stride 0.
\<close>

fun canonical_strides_from :: "dim_t \<Rightarrow> Shape \<Rightarrow> Shape" where
  "canonical_strides_from cur [] = []"
| "canonical_strides_from cur (d # ds) =
     (if d = 1 then 0 else cur * prod_list ds) # canonical_strides_from cur ds"

definition canonical_strides :: "Shape \<Rightarrow> Shape" where
  "canonical_strides shp = canonical_strides_from 1 shp"

section \<open>Relations between the graph before and after a call\<close>

text \<open>
  \<open>steps R m\<close>: the graph that the builder \<open>m\<close> leaves, whether it returns or throws, is
  related by \<open>R\<close> to the graph it started on. \<open>primitives_step R\<close>: the relation is
  reflexive and transitive and holds for the seven insertions every call is made of.
\<close>

definition steps :: "(Graph \<Rightarrow> Graph \<Rightarrow> bool) \<Rightarrow> 'a build \<Rightarrow> bool" where
  "steps R m \<longleftrightarrow> (\<forall>g. R g (snd (m g)))"

definition primitives_step :: "(Graph \<Rightarrow> Graph \<Rightarrow> bool) \<Rightarrow> bool" where
  "primitives_step R \<longleftrightarrow>
     (\<forall>g. R g g) \<and> (\<forall>g g' g''. R g g' \<longrightarrow> R g' g'' \<longrightarrow> R g g'')
     \<and> (\<forall>imm. steps R (AddNode_Immediate imm))
     \<and> (\<forall>ty x. steps R (AddNode_UnaryOp ty x))
     \<and> (\<forall>ty x y. steps R (AddNode_BinaryOp ty x y))
     \<and> (\<forall>x ty dims keepdim. steps R (WrapInReduction x ty dims keepdim))
     \<and> (\<forall>x shp. steps R (reshape x shp))
     \<and> (\<forall>x dims. steps R (permute x dims))
     \<and> (\<forall>shp. steps R (AddInput shp))"

section \<open>Well-formed insertions\<close>

fun refs :: "NodeU \<Rightarrow> GraphNodeHandle list" where
  "refs Tensor = []"
| "refs (Immediate imm) = []"
| "refs (UnaryOp ty x) = [x]"
| "refs (BinaryOp ty x y) = [x, y]"
| "refs (ReduceOp ty x dims keepdim) = [x]"
| "refs (ViewOp x) = [x]"

text \<open>
  The stored dims of a \<^verbatim>\<open>ReduceOp\<close> over the arena \<open>ns\<close>: the operand is in the arena, the
  list is sorted ascending and every index is inside the rank of the operand.
\<close>

fun reduce_dims_ok :: "GraphNode list \<Rightarrow> NodeU \<Rightarrow> bool" where
  "reduce_dims_ok ns (ReduceOp ty x dims keepdim) =
     (x < length ns \<and> sorted dims
      \<and> (\<forall>d \<in> set dims. 0 \<le> d \<and> d < int (length (shape (ns ! x)))))"
| "reduce_dims_ok ns v = True"

text \<open>
  What every insertion guarantees of the node it appends to the arena \<open>ns\<close>: its
  references are in \<open>ns\<close>, its dims are in order, and its strides are computed from its own
  shape or copied, with the shape, from a node of \<open>ns\<close>.
\<close>

definition node_ok :: "GraphNode list \<Rightarrow> GraphNode \<Rightarrow> bool" where
  "node_ok ns node \<longleftrightarrow>
     (\<forall>r \<in> set (refs (u node)). r < length ns)
     \<and> reduce_dims_ok ns (u node)
     \<and> (strides node = ComputeStrides (shape node)
        \<or> (\<exists>x < length ns. shape node = shape (ns ! x) \<and> strides node = strides (ns ! x)))"

inductive grows :: "Graph \<Rightarrow> Graph \<Rightarrow> bool" where
  grows_same: "nodes g' = nodes g \<Longrightarrow> grows g g'"
| grows_node: "grows g g' \<Longrightarrow> node_ok (nodes g') node \<Longrightarrow> nodes g'' = nodes g' @ [node]
     \<Longrightarrow> grows g g''"

definition acyclic_arena :: "Graph \<Rightarrow> bool" where
  "acyclic_arena g \<longleftrightarrow>
     (\<forall>i < length (nodes g). \<forall>r \<in> set (refs (u (nodes g ! i))). r < i)"

definition canonical_arena :: "Graph \<Rightarrow> bool" where
  "canonical_arena g \<longleftrightarrow>
     (\<forall>i < length (nodes g).
        strides (nodes g ! i) = canonical_strides (shape (nodes g ! i)))"

definition reduce_dims_arena :: "Graph \<Rightarrow> bool" where
  "reduce_dims_arena g \<longleftrightarrow>
     (\<forall>i < length (nodes g). reduce_dims_ok (nodes g) (u (nodes g ! i)))"

text \<open>The graph of the worked examples: an input, its sum over the last axis, and \<^verbatim>\<open>exp\<close>.\<close>

abbreviation example_calls :: "call list" where
  "example_calls \<equiv>
     [Call_AddInput [2, 3, 4], Call_reduce Fn_sum 0 (Axis (- 1) False), Call_unary Fn_exp 1]"

abbreviation example_graph :: Graph where
  "example_graph \<equiv>
     \<lparr>inputs = [0],
      nodes = [\<lparr>u = Tensor, shape = [2, 3, 4], strides = [12, 4, 1]\<rparr>,
               \<lparr>u = ReduceOp R_SUM 0 [2] False, shape = [2, 3], strides = [3, 1]\<rparr>,
               \<lparr>u = UnaryOp U_EXP 1, shape = [2, 3], strides = [3, 1]\<rparr>]\<rparr>"

section \<open>The derived operator min, built by hand\<close>

text \<open>
  Negation built by hand through the public primitives: the immediate \<open>-1\<close>, then the
  product of that node and the operand. \<^verbatim>\<open>-(max(-x, -y))\<close> built by hand: the two
  negations in the order the compiler evaluates arguments, their \<^verbatim>\<open>max\<close>, and its negation.
\<close>

definition hand_neg :: "GraphNodeHandle \<Rightarrow> GraphNodeHandle build" where
  "hand_neg z = bnd (Graph_Immediate (- 1)) (\<lambda>minus_one. op_mul_hh minus_one z)"

definition hand_neg_max_neg ::
  "arg_order \<Rightarrow> GraphNodeHandle \<Rightarrow> GraphNodeHandle \<Rightarrow> GraphNodeHandle build" where
  "hand_neg_max_neg ord x y =
     (case ord of
        LeftToRight \<Rightarrow>
          bnd (hand_neg x) (\<lambda>a. bnd (hand_neg y) (\<lambda>b. bnd (max_hh a b) (\<lambda>m. hand_neg m)))
      | RightToLeft \<Rightarrow>
          bnd (hand_neg y) (\<lambda>b. bnd (hand_neg x) (\<lambda>a. bnd (max_hh a b) (\<lambda>m. hand_neg m))))"

section \<open>Calls that throw\<close>






section \<open>Evaluating builder calls\<close>

lemmas build_defs = ret_def raise_def lift_def bnd_def GetNode_def handle_shape_def
  handle_strides_def AddNode_def AddNode_Tensor_def AddNode_Immediate_def AddNode_UnaryOp_def
  AddNode_BinaryOp_def AddNode_ReduceOp_def AddNode_ViewOp_def Graph_Immediate_def
  AddInput_def AddInput_dim_def

section \<open>Worked examples of the view constructors\<close>

text \<open>
  C2 (as amended). On a node of shape \<open>[2, 3, 4]\<close>, \<^verbatim>\<open>permute\<close> with the axis list
  \<open>[2, 0, 1]\<close> succeeds and appends a \<^verbatim>\<open>ViewOp\<close> node on that node. Axis \<open>i\<close> of the
  input is placed at position \<open>dims[i]\<close> of the result, so the shape of the new node is
  \<open>[3, 4, 2]\<close>.
\<close>

theorem permute_2_0_1_shape:
  assumes "x < length (nodes g)" and "shape (nodes g ! x) = [2, 3, 4]"
  shows "permute x [2, 0, 1] g =
    (Inr (length (nodes g)),
     g\<lparr>nodes := nodes g @ [\<lparr>u = ViewOp x, shape = [3, 4, 2], strides = [8, 2, 1]\<rparr>]\<rparr>)"
  using assms
  by (simp add: permute_def build_defs ComputeStrides_def FixDim_def smod_int_alt_def upt_rec)

theorem permute_2_0_1_shape_witness:
  "0 < length (nodes (snd (AddInput [2, 3, 4] empty_graph)))
   \<and> shape (nodes (snd (AddInput [2, 3, 4] empty_graph)) ! 0) = [2, 3, 4]
   \<and> permute 0 [2, 0, 1] (snd (AddInput [2, 3, 4] empty_graph)) =
       (Inr 1,
        \<lparr>inputs = [0],
         nodes = [\<lparr>u = Tensor, shape = [2, 3, 4], strides = [12, 4, 1]\<rparr>,
                  \<lparr>u = ViewOp 0, shape = [3, 4, 2], strides = [8, 2, 1]\<rparr>]\<rparr>)"
  using permute_2_0_1_shape [of 0 "snd (AddInput [2, 3, 4] empty_graph)"]
  by (simp add: build_defs empty_graph_def ComputeStrides_def upt_rec)

text \<open>
  The claim C2 as it is written asks for the shape \<open>[4, 2, 3]\<close>; on the input of shape
  \<open>[2, 3, 4]\<close> the call succeeds and the shape of the node it returns is another one.
\<close>

theorem permute_2_0_1_counterexample:
  "fst (permute 0 [2, 0, 1] (snd (AddInput [2, 3, 4] empty_graph))) = Inr 1
   \<and> shape (nodes (snd (permute 0 [2, 0, 1] (snd (AddInput [2, 3, 4] empty_graph)))) ! 1)
       \<noteq> [4, 2, 3]"
  by (simp add: permute_def build_defs empty_graph_def ComputeStrides_def FixDim_def
      smod_int_alt_def upt_rec)

text \<open>
  C3 (as amended). For \<open>x\<close> of shape \<open>[3]\<close> and \<open>y\<close> of shape \<open>[3, 7]\<close>, \<^verbatim>\<open>matmul\<close>
  succeeds and appends two views, the elementwise product and the reduction over the
  middle axis. The unit axis that pads the vector is kept: the shape of the result is
  \<open>[1, 7]\<close>.
\<close>

theorem matmul_vector_matrix_shape:
  assumes "x < length (nodes g)" and "y < length (nodes g)"
    and "shape (nodes g ! x) = [3]" and "shape (nodes g ! y) = [3, 7]"
  shows "matmul x y g =
    (Inr (length (nodes g) + 3),
     g\<lparr>nodes := nodes g @
        [\<lparr>u = ViewOp x, shape = [1, 3, 1], strides = [0, 1, 0]\<rparr>,
         \<lparr>u = ViewOp y, shape = [1, 3, 7], strides = [0, 7, 1]\<rparr>,
         \<lparr>u = BinaryOp B_MUL (length (nodes g)) (length (nodes g) + 1),
            shape = [1, 3, 7], strides = [0, 7, 1]\<rparr>,
         \<lparr>u = ReduceOp R_SUM (length (nodes g) + 2) [1] False,
            shape = [1, 7], strides = [0, 1]\<rparr>]\<rparr>)"
  using assms
  by (simp add: matmul_def reshape_def op_mul_hh_def sum_axis_def sum_dims_def
      WrapInReduction_def build_defs ComputeStrides_def GetBroadcastedShape_def
      ComputeReducedShape_def FixDim_def smod_int_alt_def upt_rec Let_def nth_append)

theorem matmul_vector_matrix_shape_witness:
  "0 < length (nodes (snd (AddInput [3, 7] (snd (AddInput [3] empty_graph)))))
   \<and> 1 < length (nodes (snd (AddInput [3, 7] (snd (AddInput [3] empty_graph)))))
   \<and> shape (nodes (snd (AddInput [3, 7] (snd (AddInput [3] empty_graph)))) ! 0) = [3]
   \<and> shape (nodes (snd (AddInput [3, 7] (snd (AddInput [3] empty_graph)))) ! 1) = [3, 7]
   \<and> fst (matmul 0 1 (snd (AddInput [3, 7] (snd (AddInput [3] empty_graph))))) = Inr 5
   \<and> shape (nodes (snd (matmul 0 1 (snd (AddInput [3, 7] (snd (AddInput [3] empty_graph))))))
              ! 5) = [1, 7]"
  using matmul_vector_matrix_shape
    [of 0 "snd (AddInput [3, 7] (snd (AddInput [3] empty_graph)))" 1]
  by (simp add: build_defs empty_graph_def ComputeStrides_def upt_rec)

text \<open>
  The claim C3 as it is written asks for the shape \<open>[7]\<close>; the node returned for inputs of
  shape \<open>[3]\<close> and \<open>[3, 7]\<close> has another shape.
\<close>

theorem matmul_vector_matrix_counterexample:
  "fst (matmul 0 1 (snd (AddInput [3, 7] (snd (AddInput [3] empty_graph))))) = Inr 5
   \<and> shape (nodes (snd (matmul 0 1 (snd (AddInput [3, 7] (snd (AddInput [3] empty_graph))))))
              ! 5) \<noteq> [7]"
  by (simp add: matmul_def reshape_def op_mul_hh_def sum_axis_def sum_dims_def
      WrapInReduction_def build_defs empty_graph_def ComputeStrides_def GetBroadcastedShape_def
      ComputeReducedShape_def FixDim_def smod_int_alt_def upt_rec Let_def)

text \<open>
  C5. Reshaping the 24 elements of an input of shape \<open>[2, 3, 4]\<close> to \<open>[5, -1]\<close> does not
  fail: the implicit dimension is solved by the truncating division \<open>24 / 5 = 4\<close> and a view
  of shape \<open>[5, 4]\<close> with 20 elements is appended. The branch without an implicit dimension
  rejects a request whose element count differs from the input's.
\<close>

theorem reshape_implicit_not_divisible:
  "reshape 0 [5, - 1] (snd (AddInput [2, 3, 4] empty_graph)) =
     (Inr 1,
      \<lparr>inputs = [0],
       nodes = [\<lparr>u = Tensor, shape = [2, 3, 4], strides = [12, 4, 1]\<rparr>,
                \<lparr>u = ViewOp 0, shape = [5, 4], strides = [4, 1]\<rparr>]\<rparr>)
   \<and> reshape 0 [5, 4] (snd (AddInput [2, 3, 4] empty_graph)) =
     (Inl DomainError, snd (AddInput [2, 3, 4] empty_graph))"
  by (simp add: reshape_def build_defs empty_graph_def ComputeStrides_def upt_rec Let_def)

section \<open>Broadcasting\<close>

lemma broadcast_pair_commute: "broadcast_pair a b = broadcast_pair b a"
  by (simp add: broadcast_pair_def)

lemma broadcast_pair_Inl: "broadcast_pair a b = Inl e \<Longrightarrow> e = DomainError"
  by (simp add: broadcast_pair_def split: if_splits)

lemma broadcast_aligned_commute: "broadcast_aligned as bs = broadcast_aligned bs as"
proof (induction as arbitrary: bs)
  case Nil
  then show ?case by (cases bs) simp_all
next
  case (Cons a as)
  note IH = Cons.IH
  show ?case
  proof (cases bs)
    case Nil
    then show ?thesis by simp
  next
    case (Cons b bs')
    then show ?thesis
      using IH [of bs'] by (simp add: broadcast_pair_commute [of a b] split: sum.splits)
  qed
qed

lemma broadcast_aligned_Inl: "broadcast_aligned as bs = Inl e \<Longrightarrow> e = DomainError"
  by (induction as bs rule: broadcast_aligned.induct)
     (auto split: sum.splits dest: broadcast_pair_Inl)


lemma broadcast_aligned_snoc:
  "length as = length bs \<Longrightarrow>
   broadcast_aligned (as @ [a]) (bs @ [b]) =
     (case broadcast_aligned as bs of
        Inl e \<Rightarrow> Inl e
      | Inr ds \<Rightarrow> (case broadcast_pair a b of Inl e \<Rightarrow> Inl e | Inr d \<Rightarrow> Inr (ds @ [d])))"
proof (induction as bs rule: list_induct2)
  case Nil
  then show ?case by (simp split: sum.splits)
next
  case (Cons x xs y ys)
  then show ?case by (simp split: sum.splits)
qed

lemma GetBroadcastedShape_loop_shift:
  "\<forall>i \<in> set idxs. i < length S0 \<Longrightarrow> length S0 \<le> length L0 \<Longrightarrow>
   GetBroadcastedShape_loop (map Suc idxs) (S0 @ [b]) (L0 @ [a]) =
     (case GetBroadcastedShape_loop idxs S0 L0 of Inl e \<Rightarrow> Inl e | Inr r \<Rightarrow> Inr (r @ [a]))"
proof (induction idxs arbitrary: L0)
  case Nil
  then show ?case by simp
next
  case (Cons i idxs)
  from Cons.prems have i: "i < length S0" "i < length L0" by auto
  then have pos: "length L0 - i - 1 < length L0" "length S0 - i - 1 < length S0" by auto
  have idx: "length (L0 @ [a]) - Suc i - 1 = length L0 - i - 1"
    "length (S0 @ [b]) - Suc i - 1 = length S0 - i - 1" by auto
  have IH: "\<And>L. length L = length L0 \<Longrightarrow>
    GetBroadcastedShape_loop (map Suc idxs) (S0 @ [b]) (L @ [a]) =
     (case GetBroadcastedShape_loop idxs S0 L of Inl e \<Rightarrow> Inl e | Inr r \<Rightarrow> Inr (r @ [a]))"
    using Cons.IH Cons.prems by auto
  show ?case
    using pos
    by (simp only: list.map GetBroadcastedShape_loop.simps idx)
       (simp add: nth_append list_update_append IH)
qed

lemma GetBroadcastedShape_loop_spec:
  "length S \<le> length L \<Longrightarrow>
   GetBroadcastedShape_loop [0..<length S] S L =
     (case broadcast_aligned (drop (length L - length S) L) S of
        Inl e \<Rightarrow> Inl e
      | Inr ds \<Rightarrow> Inr (take (length L - length S) L @ ds))"
proof (induction S arbitrary: L rule: rev_induct)
  case Nil
  then show ?case by simp
next
  case (snoc b S0)
  then obtain L0 a where L: "L = L0 @ [a]"
    by (cases L rule: rev_cases) auto
  with snoc.prems have len: "length S0 \<le> length L0" by simp
  have upt: "[0..<length (S0 @ [b])] = 0 # map Suc [0..<length S0]"
    by (simp add: upt_conv_Cons map_Suc_upt del: upt_Suc)
  have shift: "\<And>a' b'. GetBroadcastedShape_loop (map Suc [0..<length S0]) (S0 @ [b']) (L0 @ [a']) =
     (case GetBroadcastedShape_loop [0..<length S0] S0 L0 of
        Inl e \<Rightarrow> Inl e | Inr r \<Rightarrow> Inr (r @ [a']))"
    using len by (intro GetBroadcastedShape_loop_shift) auto
  have k: "length L - length (S0 @ [b]) = length L0 - length S0" using L by simp
  have dl: "length (drop (length L0 - length S0) L0) = length S0" using len by simp
  have spec: "broadcast_aligned (drop (length L0 - length S0) L) (S0 @ [b]) =
     (case broadcast_aligned (drop (length L0 - length S0) L0) S0 of
        Inl e \<Rightarrow> Inl e
      | Inr ds \<Rightarrow> (case broadcast_pair a b of Inl e \<Rightarrow> Inl e | Inr d \<Rightarrow> Inr (ds @ [d])))"
    using len dl by (simp add: L broadcast_aligned_snoc)
  have tk: "take (length L0 - length S0) L = take (length L0 - length S0) L0"
    using L by simp
  have err: "\<And>e. broadcast_aligned (drop (length L0 - length S0) L0) S0 = Inl e \<Longrightarrow> e = DomainError"
    by (rule broadcast_aligned_Inl)
  show ?case
    unfolding upt k spec tk
    by (simp add: L shift snoc.IH [OF len] broadcast_pair_def split: sum.splits)
       (auto dest: err)
qed

lemma GetBroadcastedShape_eq_spec: "GetBroadcastedShape x y = BroadcastShapes x y"
proof -
  consider "length y < length x" | "length x < length y" | "length x = length y"
    by linarith
  then show ?thesis
  proof cases
    case 1
    then show ?thesis
      by (simp add: GetBroadcastedShape_def BroadcastShapes_def Let_def GetBroadcastedShape_loop_spec)
  next
    case 2
    then show ?thesis
      by (simp add: GetBroadcastedShape_def BroadcastShapes_def Let_def GetBroadcastedShape_loop_spec)
  next
    case 3
    have "GetBroadcastedShape x y = GetBroadcastedShape_loop [0..<length x] x y"
      using 3 by (simp add: GetBroadcastedShape_def)
    also have "\<dots> = (case broadcast_aligned y x of Inl e \<Rightarrow> Inl e | Inr ds \<Rightarrow> Inr ds)"
      using GetBroadcastedShape_loop_spec [of x y] 3 by (simp cong: sum.case_cong)
    also have "\<dots> = BroadcastShapes x y"
      using 3 by (simp add: BroadcastShapes_def broadcast_aligned_commute [of y x] cong: sum.case_cong)
    finally show ?thesis .
  qed
qed

text \<open>
  C6. \<^verbatim>\<open>GetBroadcastedShape\<close> computes the broadcast rule of the specification: the
  result has the length of the longer shape, keeps its leading dimensions, and every
  right-aligned pair gives the other side if one side is 1, the common value if both are
  equal, and the error otherwise. \<open>[4, 1, 3]\<close> and \<open>[1, 5, 3]\<close> broadcast to
  \<open>[4, 5, 3]\<close>; \<open>[2, 3]\<close> and \<open>[4]\<close> raise the error.
\<close>

theorem GetBroadcastedShape_rule:
  "GetBroadcastedShape x y = BroadcastShapes x y
   \<and> GetBroadcastedShape [4, 1, 3] [1, 5, 3] = Inr [4, 5, 3]
   \<and> GetBroadcastedShape [2, 3] [4] = Inl DomainError"
proof -
  have "GetBroadcastedShape [4, 1, 3] [1, 5, 3] = Inr [4, 5, 3]"
    by (simp add: GetBroadcastedShape_def upt_rec)
  moreover have "GetBroadcastedShape [2, 3] [4] = Inl DomainError"
    by (simp add: GetBroadcastedShape_def upt_rec)
  ultimately show ?thesis
    using GetBroadcastedShape_eq_spec by simp
qed

section \<open>Axis normalisation, strides and reduced shapes\<close>

lemma smod_nonneg: "0 \<le> a \<Longrightarrow> 0 < b \<Longrightarrow> a smod b = a mod (b::int)"
  by (cases "a = 0") (simp_all add: smod_int_alt_def)

lemma FixDim_range:
  assumes "1 \<le> r"
  shows "\<exists>k. FixDim d r = Inr k \<and> 0 \<le> k \<and> k < r"
proof -
  have r: "0 < r" using assms by simp
  have "d smod r \<in> {- \<bar>r\<bar> + 1..\<bar>r\<bar> - 1}" by (rule smod_int_range) (use r in simp)
  then have b: "0 \<le> d smod r + r" using r by auto
  then have "(d smod r + r) smod r = (d smod r + r) mod r"
    using r by (rule smod_nonneg)
  then show ?thesis using r by (simp add: FixDim_def)
qed

lemma FixDim_minus1: "1 \<le> r \<Longrightarrow> FixDim (- 1) r = Inr (r - 1)"
proof (cases "r = 1")
  case True
  then show ?thesis by (simp add: FixDim_def smod_int_alt_def)
next
  case False
  assume "1 \<le> r"
  with False have r: "1 < r" by simp
  then have "(- 1) smod r = - 1" by (simp add: smod_int_alt_def)
  moreover have "(r - 1) mod r = r - 1" using r by (intro mod_pos_pos_trivial) auto
  then have "(r - 1) smod r = r - 1" using r smod_nonneg[of "r - 1" r] by (simp only:)
  ultimately show ?thesis using r by (simp add: FixDim_def)
qed





lemma WrapInReduction_fix_ok:
  "1 \<le> r \<Longrightarrow>
   \<exists>fs. WrapInReduction_fix dims r = Inr fs \<and> length fs = length dims
        \<and> (\<forall>f \<in> set fs. 0 \<le> f \<and> f < r)"
proof (induction dims)
  case Nil
  then show ?case by simp
next
  case (Cons d dims)
  from FixDim_range [OF Cons.prems, of d] obtain k
    where "FixDim d r = Inr k" "0 \<le> k" "k < r" by blast
  moreover from Cons obtain fs
    where "WrapInReduction_fix dims r = Inr fs" "length fs = length dims"
      "\<forall>f \<in> set fs. 0 \<le> f \<and> f < r" by blast
  ultimately show ?case by simp
qed

lemma WrapInReduction_fix_zero: "dims \<noteq> [] \<Longrightarrow> WrapInReduction_fix dims 0 = Inl Undefined"
  by (cases dims) (simp_all add: FixDim_def)

lemma WrapInReduction_fix_Nil: "WrapInReduction_fix [] r = Inr []"
  by simp

lemma ComputeReducedShape_mark_ok:
  "\<forall>d \<in> set ds. 0 \<le> d \<and> d < int (length shp) \<Longrightarrow>
   \<exists>s. ComputeReducedShape_mark ds shp = Inr s \<and> length s = length shp"
proof (induction ds arbitrary: shp)
  case Nil
  then show ?case by simp
next
  case (Cons d ds)
  have "\<forall>d' \<in> set ds. 0 \<le> d' \<and> d' < int (length (shp[nat d := - 1]))"
    using Cons.prems by simp
  from Cons.IH [OF this] Cons.prems show ?case by simp
qed

lemma ComputeReducedShape_defined:
  "\<forall>d \<in> set ds. 0 \<le> d \<and> d < int (length shp) \<Longrightarrow>
   ComputeReducedShape shp ds keepdim \<noteq> Inl Undefined"
  using ComputeReducedShape_mark_ok [of ds shp]
  by (auto simp: ComputeReducedShape_def split: if_splits)

section \<open>Every call is a sequence of primitive insertions\<close>

lemmas builder_defs = WrapInUnary_def sum_dims_def sum_axis_def sum_keepdim_def max_dims_def
  max_axis_def max_keepdim_def reshape_length_def transpose_h_def exp_h_def log_h_def sin_h_def
  op_add_hh_def op_add_fh_def op_add_hf_def op_sub_hh_def op_sub_fh_def op_sub_hf_def
  op_mul_hh_def op_mul_fh_def op_mul_hf_def op_neg_def op_div_hh_def op_div_fh_def op_div_hf_def
  op_pow_hf_def op_eq_hh_def op_eq_fh_def op_eq_hf_def max_hh_def max_fh_def max_hf_def
  min_hh_def min_fh_def min_hf_def op_gt_hf_def op_gt_fh_def op_gt_hh_def op_lt_hf_def
  op_lt_fh_def op_lt_hh_def op_le_hf_def op_le_fh_def op_le_hh_def op_ge_hf_def op_ge_fh_def
  op_ge_hh_def pow_hf_def pow_fh_def pow_hh_def cos_h_def sigmoid_def min_keepdim_def
  min_axis_def min_dims_def Graph_Immediate_def AddInput_dim_def

lemma steps_bnd:
  assumes "primitives_step R" and "steps R m" and "\<And>a. steps R (f a)"
  shows "steps R (bnd m f)"
proof -
  have trans: "\<And>g g' g''. R g g' \<Longrightarrow> R g' g'' \<Longrightarrow> R g g''"
    using assms(1) unfolding primitives_step_def by blast
  show ?thesis
    unfolding steps_def
  proof
    fix g
    obtain r g' where m: "m g = (r, g')" by (cases "m g")
    have 1: "R g g'" using assms(2) m unfolding steps_def by (metis snd_conv)
    show "R g (snd (bnd m f g))"
    proof (cases r)
      case (Inl e)
      then show ?thesis using 1 m by (simp add: bnd_def)
    next
      case (Inr a)
      have "R g' (snd (f a g'))" using assms(3) unfolding steps_def by blast
      then show ?thesis using trans [OF 1] m Inr by (simp add: bnd_def)
    qed
  qed
qed

lemma steps_pure:
  assumes "primitives_step R"
  shows "steps R (ret a)" and "steps R (raise e)" and "steps R (lift r)"
    and "steps R (handle_shape x)"
  using assms
  by (simp_all add: steps_def primitives_step_def build_defs split: sum.splits)

lemma steps_if: "steps R a \<Longrightarrow> steps R b \<Longrightarrow> steps R (if c then a else b)"
  by simp

lemma steps_case_order:
  "steps R a \<Longrightarrow> steps R b \<Longrightarrow>
   steps R (case ord of LeftToRight \<Rightarrow> a | RightToLeft \<Rightarrow> b)"
  by (cases ord) simp_all

lemma steps_primitive:
  assumes "primitives_step R"
  shows "steps R (AddNode_Immediate imm)" and "steps R (AddNode_UnaryOp uty x)"
    and "steps R (AddNode_BinaryOp bty x y)" and "steps R (WrapInReduction x rty dims keepdim)"
    and "steps R (reshape x shp)" and "steps R (permute x dims)" and "steps R (AddInput shp)"
  using assms unfolding primitives_step_def by blast+

lemma steps_op_neg:
  assumes "primitives_step R"
  shows "steps R (op_neg x)"
  unfolding op_neg_def op_mul_fh_def op_mul_hh_def
  by (intro steps_bnd steps_primitive assms)

lemmas steps_intros = steps_bnd steps_pure steps_if steps_case_order steps_primitive
  steps_op_neg

lemma steps_run_unary:
  assumes "primitives_step R"
  shows "steps R (run_unary f x)"
  by (cases f; simp only: run_unary.simps builder_defs) (intro steps_intros assms)+

lemma steps_run_binary:
  assumes "primitives_step R"
  shows "steps R (run_binary ord f xy)"
  by (cases f; cases xy; simp only: run_binary.simps builder_defs)
     (intro steps_intros assms)+

lemma steps_run_reduce:
  assumes "primitives_step R"
  shows "steps R (run_reduce f x args)"
  by (cases f; cases args; simp only: run_reduce.simps builder_defs)
     (intro steps_intros assms)+

lemma steps_matmul:
  assumes "primitives_step R"
  shows "steps R (matmul x y)"
  unfolding matmul_def Let_def builder_defs
  by (intro steps_intros assms)

lemma steps_run:
  assumes "primitives_step R"
  shows "steps R (run ord c)"
  by (cases c; simp only: run.simps builder_defs steps_run_unary [OF assms]
        steps_run_binary [OF assms] steps_run_reduce [OF assms] steps_matmul [OF assms])
     (intro steps_intros assms)+

section \<open>The primitive insertions append well-formed nodes\<close>

lemma grows_refl: "grows g g"
  by (rule grows_same) simp

lemma grows_append: "node_ok (nodes g) node \<Longrightarrow> nodes g' = nodes g @ [node] \<Longrightarrow> grows g g'"
  by (rule grows_node [OF grows_refl])

lemma grows_add: "node_ok (nodes g) node \<Longrightarrow> grows g (g\<lparr>nodes := nodes g @ [node]\<rparr>)"
  by (rule grows_append) simp_all

lemma grows_add_input:
  "node_ok (nodes g) node \<Longrightarrow> grows g (g\<lparr>inputs := xs, nodes := nodes g @ [node]\<rparr>)"
  by (rule grows_append) simp_all

lemma grows_cong: "grows g g' \<Longrightarrow> nodes g'' = nodes g' \<Longrightarrow> grows g g''"
  by (induction rule: grows.induct) (auto intro: grows.intros)

lemma grows_trans:
  assumes "grows g g'" and "grows g' g''"
  shows "grows g g''"
  using assms(2,1)
proof (induction rule: grows.induct)
  case (grows_same g2 g1)
  then show ?case by (auto intro: grows_cong)
next
  case (grows_node g1 g2 node g3)
  then show ?case by (auto intro: grows.grows_node)
qed


lemma ComputeStrides_Nil: "ComputeStrides [] = []"
  by (simp add: ComputeStrides_def)

lemmas grows_simps = grows_refl grows_add grows_add_input node_ok_def

lemma steps_grows_Immediate: "steps grows (AddNode_Immediate imm)"
  by (simp add: steps_def build_defs grows_simps ComputeStrides_Nil)

lemma steps_grows_UnaryOp: "steps grows (AddNode_UnaryOp ty x)"
  unfolding steps_def
proof
  fix g
  show "grows g (snd (AddNode_UnaryOp ty x g))"
  proof (cases "x < length (nodes g)")
    case True
    then have "node_ok (nodes g)
        \<lparr>u = UnaryOp ty x, shape = shape (nodes g ! x), strides = strides (nodes g ! x)\<rparr>"
      by (auto simp: node_ok_def)
    with True show ?thesis by (simp add: build_defs grows_add)
  next
    case False
    then show ?thesis by (simp add: build_defs grows_refl)
  qed
qed

lemma steps_grows_BinaryOp: "steps grows (AddNode_BinaryOp ty x y)"
  by (auto simp: steps_def build_defs grows_simps split: sum.splits)

lemma steps_grows_reshape: "steps grows (reshape x shp)"
  by (auto simp: steps_def reshape_def build_defs grows_simps Let_def split: sum.splits)

lemma steps_grows_permute: "steps grows (permute x dims)"
  by (auto simp: steps_def permute_def build_defs grows_simps split: sum.splits)

lemma steps_grows_AddInput: "steps grows (AddInput shp)"
  by (simp add: steps_def build_defs grows_simps)

lemma WrapInReduction_fix_range:
  assumes "WrapInReduction_fix dims r = Inr fs" and "0 \<le> r"
  shows "length fs = length dims \<and> (\<forall>f \<in> set fs. 0 \<le> f \<and> f < r)"
proof (cases "r = 0")
  case True
  with assms show ?thesis
    using WrapInReduction_fix_zero [of dims] by (cases "dims = []") auto
next
  case False
  with assms have "1 \<le> r" by simp
  from WrapInReduction_fix_ok [OF this, of dims] assms show ?thesis by auto
qed

lemma steps_grows_WrapInReduction: "steps grows (WrapInReduction x ty dims keepdim)"
  unfolding steps_def
proof
  fix g
  show "grows g (snd (WrapInReduction x ty dims keepdim g))"
  proof (cases "x < length (nodes g)")
    case False
    then show ?thesis
      by (simp add: WrapInReduction_def build_defs grows_simps)
  next
    case x: True
    show ?thesis
    proof (cases "WrapInReduction_fix dims (int (length (shape (nodes g ! x))))")
      case (Inl e)
      with x show ?thesis
        by (simp add: WrapInReduction_def build_defs grows_simps)
    next
      case (Inr fs)
      from WrapInReduction_fix_range [OF Inr]
      have fs: "\<forall>f \<in> set fs. 0 \<le> f \<and> f < int (length (shape (nodes g ! x)))" by simp
      with x Inr show ?thesis
        by (auto simp: WrapInReduction_def build_defs grows_simps split: sum.splits)
    qed
  qed
qed

lemma primitives_step_grows: "primitives_step grows"
  unfolding primitives_step_def
  using grows_refl grows_trans steps_grows_Immediate steps_grows_UnaryOp steps_grows_BinaryOp
    steps_grows_WrapInReduction steps_grows_reshape steps_grows_permute steps_grows_AddInput
  by blast

lemma run_grows: "grows g (snd (run ord c g))"
  using steps_run [OF primitives_step_grows, of ord c] by (simp add: steps_def)

lemma build_from_grows: "build_from ord cs g = Some g' \<Longrightarrow> grows g g'"
proof (induction cs arbitrary: g)
  case Nil
  then show ?case by (simp add: grows_refl)
next
  case (Cons c cs)
  obtain r g1 where r: "run ord c g = (r, g1)" by (cases "run ord c g")
  with run_grows [of g ord c] have 1: "grows g g1" by simp
  from Cons.prems r have "build_from ord cs g1 = Some g'"
    by (auto split: sum.splits error.splits)
  from grows_trans [OF 1 Cons.IH [OF this]] show ?case .
qed

section \<open>Invariants of the arena\<close>

lemma grows_acyclic: "grows g g' \<Longrightarrow> acyclic_arena g \<Longrightarrow> acyclic_arena g'"
proof (induction rule: grows.induct)
  case (grows_same g' g)
  then show ?case by (simp add: acyclic_arena_def)
next
  case (grows_node g g' node g'')
  then have "acyclic_arena g'" by simp
  with grows_node.hyps(2,3) show ?case
    by (auto simp: acyclic_arena_def node_ok_def nth_append less_Suc_eq)
qed


lemma reduce_dims_ok_append:
  "reduce_dims_ok ns v \<Longrightarrow> reduce_dims_ok (ns @ ms) v"
  by (cases v) (auto simp: nth_append)

lemma grows_reduce_dims: "grows g g' \<Longrightarrow> reduce_dims_arena g \<Longrightarrow> reduce_dims_arena g'"
proof (induction rule: grows.induct)
  case (grows_same g' g)
  then show ?case by (simp add: reduce_dims_arena_def)
next
  case (grows_node g g' node g'')
  then have "reduce_dims_arena g'" by simp
  with grows_node.hyps(2,3) show ?case
    by (auto simp: reduce_dims_arena_def node_ok_def nth_append less_Suc_eq
        intro: reduce_dims_ok_append)
qed

section \<open>The invariants in every built graph\<close>

lemmas eval_defs = builder_defs build_defs matmul_def reshape_def permute_def
  WrapInReduction_def ComputeStrides_def GetBroadcastedShape_def ComputeReducedShape_def
  FixDim_def smod_int_alt_def upt_rec Let_def empty_graph_def

lemma empty_graph_invariants:
  "acyclic_arena empty_graph" "canonical_arena empty_graph" "reduce_dims_arena empty_graph"
  by (simp_all add: acyclic_arena_def canonical_arena_def reduce_dims_arena_def empty_graph_def)

text \<open>
  C7. Every node reference held by a node of the arena is an index strictly below the index
  of the node that holds it, so the graph is acyclic. Every call of a public entry point
  that returns or throws preserves this, and so it holds in every graph built from the
  empty graph.
\<close>

theorem arena_acyclic:
  "(acyclic_arena g \<and> fst (run ord c g) \<noteq> Inl Undefined \<longrightarrow> acyclic_arena (snd (run ord c g)))
   \<and> (build_from ord cs empty_graph = Some g' \<longrightarrow> acyclic_arena g')"
  using grows_acyclic [OF run_grows] grows_acyclic [OF build_from_grows]
    empty_graph_invariants(1)
  by blast

theorem arena_acyclic_witness:
  "build_from LeftToRight example_calls empty_graph = Some example_graph
   \<and> acyclic_arena example_graph
   \<and> fst (run LeftToRight (Call_binary Op_mul (HH 1 2)) example_graph) = Inr 3
   \<and> acyclic_arena (snd (run LeftToRight (Call_binary Op_mul (HH 1 2)) example_graph))"
  using arena_acyclic [of example_graph LeftToRight "Call_binary Op_mul (HH 1 2)"
      example_calls example_graph]
  by (simp add: eval_defs)



lemma WrapInReduction_Inr:
  assumes "WrapInReduction x ty dims keepdim g = (Inr h, g')"
  shows "\<exists>ds shp. nodes g' = nodes g @
            [\<lparr>u = ReduceOp ty x ds keepdim, shape = shp, strides = ComputeStrides shp\<rparr>]
          \<and> length ds = length dims \<and> sorted ds
          \<and> (\<forall>d \<in> set ds. 0 \<le> d \<and> d < int (length (shape (nodes g ! x))))"
proof -
  from assms have x: "x < length (nodes g)"
    by (auto simp: WrapInReduction_def build_defs split: if_splits)
  with assms obtain fs
    where fs: "WrapInReduction_fix dims (int (length (shape (nodes g ! x)))) = Inr fs"
    by (cases "WrapInReduction_fix dims (int (length (shape (nodes g ! x))))")
       (auto simp: WrapInReduction_def build_defs)
  from WrapInReduction_fix_range [OF fs]
  have r: "length fs = length dims"
    "\<forall>f \<in> set fs. 0 \<le> f \<and> f < int (length (shape (nodes g ! x)))" by simp_all
  from assms x fs obtain shp
    where "g' = g\<lparr>nodes := nodes g @
       [\<lparr>u = ReduceOp ty x (sort fs) keepdim, shape = shp, strides = ComputeStrides shp\<rparr>]\<rparr>"
    by (auto simp: WrapInReduction_def build_defs split: sum.splits)
  with r show ?thesis by auto
qed

text \<open>
  C4 (as amended). The dims stored in a \<^verbatim>\<open>ReduceOp\<close> node are sorted ascending and every
  one of them is an index inside the rank of the operand, for every operand and every
  list of axes the caller gives, negative axes included. An axis given several times is
  stored as many times: the stored list is as long as the given one. This holds for the
  node that \<^verbatim>\<open>sum\<close> and \<^verbatim>\<open>max\<close> (\<^verbatim>\<open>WrapInReduction\<close>) append, is preserved by every call
  of a public entry point, and holds in every graph built from the empty graph.
\<close>

theorem reduce_dims_sorted_in_range:
  "(WrapInReduction x ty dims keepdim g = (Inr h, g') \<longrightarrow>
      (\<exists>ds shp. nodes g' = nodes g @
            [\<lparr>u = ReduceOp ty x ds keepdim, shape = shp, strides = ComputeStrides shp\<rparr>]
          \<and> length ds = length dims \<and> sorted ds
          \<and> (\<forall>d \<in> set ds. 0 \<le> d \<and> d < int (length (shape (nodes g ! x))))))
   \<and> (reduce_dims_arena g \<and> fst (run ord c g) \<noteq> Inl Undefined
        \<longrightarrow> reduce_dims_arena (snd (run ord c g)))
   \<and> (build_from ord cs empty_graph = Some g'' \<longrightarrow> reduce_dims_arena g'')"
  using WrapInReduction_Inr [of x ty dims keepdim g h g']
    grows_reduce_dims [OF run_grows] grows_reduce_dims [OF build_from_grows]
    empty_graph_invariants(3)
  by blast

theorem reduce_dims_sorted_in_range_witness:
  "build_from LeftToRight example_calls empty_graph = Some example_graph
   \<and> reduce_dims_arena example_graph
   \<and> fst (run LeftToRight (Call_reduce Fn_reduce_max 0 (DimList [- 1, 1, 2] True))
        example_graph) = Inr 3
   \<and> reduce_dims_arena
       (snd (run LeftToRight (Call_reduce Fn_reduce_max 0 (DimList [- 1, 1, 2] True))
          example_graph))
   \<and> WrapInReduction 0 R_MAX [- 1, 1, 2] True example_graph =
       (Inr 3, example_graph\<lparr>nodes := nodes example_graph @
          [\<lparr>u = ReduceOp R_MAX 0 [1, 2, 2] True, shape = [2, 1, 1], strides = [1, 0, 0]\<rparr>]\<rparr>)"
  using reduce_dims_sorted_in_range [of 0 R_MAX "[- 1, 1, 2]" True example_graph 3
      "example_graph\<lparr>nodes := nodes example_graph @
          [\<lparr>u = ReduceOp R_MAX 0 [1, 2, 2] True, shape = [2, 1, 1], strides = [1, 0, 0]\<rparr>]\<rparr>"
      LeftToRight "Call_reduce Fn_reduce_max 0 (DimList [- 1, 1, 2] True)"
      example_calls example_graph]
  by (simp add: eval_defs)

text \<open>
  The claim C4 as it is written also asks that the stored dims hold no index twice. The
  axes \<open>[1, 1]\<close> on an input of shape \<open>[2, 3, 4]\<close> are stored as they are.
\<close>

theorem reduce_dims_duplicate_counterexample:
  "sum_dims 0 [1, 1] False (snd (AddInput [2, 3, 4] empty_graph)) =
     (Inr 1,
      \<lparr>inputs = [0],
       nodes = [\<lparr>u = Tensor, shape = [2, 3, 4], strides = [12, 4, 1]\<rparr>,
                \<lparr>u = ReduceOp R_SUM 0 [1, 1] False, shape = [2, 4], strides = [4, 1]\<rparr>]\<rparr>)
   \<and> \<not> distinct [1, 1 :: dim_t]"
  by (simp add: eval_defs)

lemma WrapInReduction_rank0:
  assumes "x < length (nodes g)" and "shape (nodes g ! x) = []" and "dims \<noteq> []"
  shows "WrapInReduction x ty dims keepdim g = (Inl Undefined, g)"
  using assms WrapInReduction_fix_zero [OF assms(3)]
  by (simp add: WrapInReduction_def build_defs)

lemma WrapInReduction_defined:
  assumes "x < length (nodes g)" and "shape (nodes g ! x) \<noteq> []"
  shows "fst (WrapInReduction x ty dims keepdim g) \<noteq> Inl Undefined"
proof -
  have "1 \<le> int (length (shape (nodes g ! x)))"
    using assms(2) by (cases "shape (nodes g ! x)") simp_all
  from WrapInReduction_fix_ok [OF this, of dims] obtain fs
    where fs: "WrapInReduction_fix dims (int (length (shape (nodes g ! x)))) = Inr fs"
      "\<forall>f \<in> set fs. 0 \<le> f \<and> f < int (length (shape (nodes g ! x)))" by blast
  then have "ComputeReducedShape (shape (nodes g ! x)) (sort fs) keepdim \<noteq> Inl Undefined"
    by (intro ComputeReducedShape_defined) simp
  with assms(1) fs(1) show ?thesis
    by (cases "ComputeReducedShape (shape (nodes g ! x)) (sort fs) keepdim")
       (simp_all add: WrapInReduction_def build_defs)
qed

text \<open>
  C10. \<^verbatim>\<open>sum\<close> and \<^verbatim>\<open>max\<close> with explicit axes (\<^verbatim>\<open>WrapInReduction\<close> with a list of axes
  that is not empty; the overloads with one axis pass the list of that axis) normalise
  every axis with \<^verbatim>\<open>FixDim\<close> against the rank of the operand. On an operand of rank 0 this
  is a remainder by zero and the behaviour is undefined. On an operand of rank at least
  1 the call is defined; the normalised axis lies in \<open>[0, rank)\<close> and \<open>-1\<close> becomes
  \<open>rank - 1\<close>.
\<close>

theorem reduction_axis_needs_rank:
  "FixDim d 0 = Inl Undefined
   \<and> (1 \<le> r \<longrightarrow> (\<exists>k. FixDim d r = Inr k \<and> 0 \<le> k \<and> k < r) \<and> FixDim (- 1) r = Inr (r - 1))
   \<and> (x < length (nodes g) \<and> shape (nodes g ! x) = [] \<and> dims \<noteq> []
        \<longrightarrow> WrapInReduction x ty dims keepdim g = (Inl Undefined, g))
   \<and> (x < length (nodes g) \<and> shape (nodes g ! x) \<noteq> []
        \<longrightarrow> fst (WrapInReduction x ty dims keepdim g) \<noteq> Inl Undefined)"
  using FixDim_range [of r d] FixDim_minus1 [of r] WrapInReduction_rank0 [of x g dims ty keepdim]
    WrapInReduction_defined [of x g ty dims keepdim]
  by (simp add: FixDim_def)

theorem reduction_axis_needs_rank_witness:
  "FixDim (- 1) 0 = Inl Undefined
   \<and> (1 :: dim_t) \<le> 3 \<and> FixDim (- 1) 3 = Inr 2
   \<and> sum_axis 0 (- 1) False (snd (Graph_Immediate 5 empty_graph)) =
       (Inl Undefined, snd (Graph_Immediate 5 empty_graph))
   \<and> shape (nodes example_graph ! 0) \<noteq> []
   \<and> fst (max_axis 0 (- 1) False example_graph) \<noteq> Inl Undefined"
proof -
  have "sum_axis 0 (- 1) False (snd (Graph_Immediate 5 empty_graph)) =
       (Inl Undefined, snd (Graph_Immediate 5 empty_graph))"
    using reduction_axis_needs_rank [of "- 1" 3 0 "snd (Graph_Immediate 5 empty_graph)"
        "[- 1]" R_SUM False]
    by (simp add: sum_axis_def sum_dims_def build_defs empty_graph_def)
  moreover have "fst (max_axis 0 (- 1) False example_graph) \<noteq> Inl Undefined"
    using reduction_axis_needs_rank [of "- 1" 3 0 example_graph "[- 1]" R_MAX False]
    by (simp add: max_axis_def max_dims_def)
  moreover have "FixDim (- 1) 0 = Inl Undefined \<and> (1 :: dim_t) \<le> 3 \<and> FixDim (- 1) 3 = Inr 2"
    using reduction_axis_needs_rank [of "- 1" 3 0 example_graph "[- 1]" R_MAX False]
    by simp
  ultimately show ?thesis by simp
qed

section \<open>min is the negated max of the negations\<close>

lemma GetBroadcastedShape_Nil_left: "GetBroadcastedShape [] s = Inr s"
  by (simp add: GetBroadcastedShape_def)


lemma op_neg_hand: "op_neg z = hand_neg z"
  by (simp add: op_neg_def op_mul_fh_def hand_neg_def Graph_Immediate_def)

lemma op_neg_valid:
  assumes "z < length (nodes g)"
  shows "op_neg z g =
    (Inr (Suc (length (nodes g))),
     g\<lparr>nodes := nodes g @
        [\<lparr>u = Immediate (- 1), shape = [], strides = []\<rparr>,
         \<lparr>u = BinaryOp B_MUL (length (nodes g)) z, shape = shape (nodes g ! z),
            strides = ComputeStrides (shape (nodes g ! z))\<rparr>]\<rparr>)"
  using assms
  by (simp add: op_neg_def op_mul_fh_def op_mul_hh_def build_defs nth_append
      GetBroadcastedShape_Nil_left)

text \<open>
  C8. For all handles \<open>x\<close> and \<open>y\<close> on the graph, \<^verbatim>\<open>min(x, y)\<close> leaves the graph and the
  result that building \<^verbatim>\<open>-(max(-x, -y))\<close> by hand leaves, whether the call returns or
  throws. When the handles are in the arena and their shapes broadcast to \<open>s\<close>, the seven
  nodes appended are, with arguments evaluated left to right: \<open>Immediate (-1)\<close>,
  \<open>MUL\<close> of it and \<open>x\<close>, \<open>Immediate (-1)\<close>, \<open>MUL\<close> of it and \<open>y\<close>, \<open>MAX\<close> of the two
  products, \<open>Immediate (-1)\<close>, \<open>MUL\<close> of it and the \<open>MAX\<close> node; evaluated right to left
  the negation of \<open>y\<close> comes first.
\<close>

theorem min_is_neg_max_neg:
  "min_hh ord x y g = hand_neg_max_neg ord x y g
   \<and> (x < length (nodes g) \<and> y < length (nodes g)
        \<and> GetBroadcastedShape (shape (nodes g ! x)) (shape (nodes g ! y)) = Inr s \<longrightarrow>
      min_hh LeftToRight x y g =
        (Inr (length (nodes g) + 6),
         g\<lparr>nodes := nodes g @
            [\<lparr>u = Immediate (- 1), shape = [], strides = []\<rparr>,
             \<lparr>u = BinaryOp B_MUL (length (nodes g)) x, shape = shape (nodes g ! x),
                strides = ComputeStrides (shape (nodes g ! x))\<rparr>,
             \<lparr>u = Immediate (- 1), shape = [], strides = []\<rparr>,
             \<lparr>u = BinaryOp B_MUL (length (nodes g) + 2) y, shape = shape (nodes g ! y),
                strides = ComputeStrides (shape (nodes g ! y))\<rparr>,
             \<lparr>u = BinaryOp B_MAX (length (nodes g) + 1) (length (nodes g) + 3), shape = s,
                strides = ComputeStrides s\<rparr>,
             \<lparr>u = Immediate (- 1), shape = [], strides = []\<rparr>,
             \<lparr>u = BinaryOp B_MUL (length (nodes g) + 5) (length (nodes g) + 4), shape = s,
                strides = ComputeStrides s\<rparr>]\<rparr>)
      \<and> min_hh RightToLeft x y g =
        (Inr (length (nodes g) + 6),
         g\<lparr>nodes := nodes g @
            [\<lparr>u = Immediate (- 1), shape = [], strides = []\<rparr>,
             \<lparr>u = BinaryOp B_MUL (length (nodes g)) y, shape = shape (nodes g ! y),
                strides = ComputeStrides (shape (nodes g ! y))\<rparr>,
             \<lparr>u = Immediate (- 1), shape = [], strides = []\<rparr>,
             \<lparr>u = BinaryOp B_MUL (length (nodes g) + 2) x, shape = shape (nodes g ! x),
                strides = ComputeStrides (shape (nodes g ! x))\<rparr>,
             \<lparr>u = BinaryOp B_MAX (length (nodes g) + 3) (length (nodes g) + 1), shape = s,
                strides = ComputeStrides s\<rparr>,
             \<lparr>u = Immediate (- 1), shape = [], strides = []\<rparr>,
             \<lparr>u = BinaryOp B_MUL (length (nodes g) + 5) (length (nodes g) + 4), shape = s,
                strides = ComputeStrides s\<rparr>]\<rparr>))"
proof -
  have "min_hh ord x y = hand_neg_max_neg ord x y"
    by (cases ord) (simp_all add: min_hh_def hand_neg_max_neg_def op_neg_hand [abs_def])
  then show ?thesis
    by (auto simp: min_hh_def bnd_def op_neg_valid max_hh_def AddNode_BinaryOp_def
        handle_shape_def GetNode_def ret_def lift_def AddNode_def nth_append
        GetBroadcastedShape_Nil_left)
qed

theorem min_is_neg_max_neg_witness:
  "min_hh LeftToRight 0 1 (snd (AddInput [1, 3] (snd (AddInput [2, 1] empty_graph)))) =
     hand_neg_max_neg LeftToRight 0 1 (snd (AddInput [1, 3] (snd (AddInput [2, 1] empty_graph))))
   \<and> GetBroadcastedShape [2, 1] [1, 3] = Inr [2, 3]
   \<and> min_hh LeftToRight 0 1 (snd (AddInput [1, 3] (snd (AddInput [2, 1] empty_graph)))) =
       (Inr 8,
        \<lparr>inputs = [0, 1],
         nodes =
           [\<lparr>u = Tensor, shape = [2, 1], strides = [1, 0]\<rparr>,
            \<lparr>u = Tensor, shape = [1, 3], strides = [0, 1]\<rparr>,
            \<lparr>u = Immediate (- 1), shape = [], strides = []\<rparr>,
            \<lparr>u = BinaryOp B_MUL 2 0, shape = [2, 1], strides = [1, 0]\<rparr>,
            \<lparr>u = Immediate (- 1), shape = [], strides = []\<rparr>,
            \<lparr>u = BinaryOp B_MUL 4 1, shape = [1, 3], strides = [0, 1]\<rparr>,
            \<lparr>u = BinaryOp B_MAX 3 5, shape = [2, 3], strides = [3, 1]\<rparr>,
            \<lparr>u = Immediate (- 1), shape = [], strides = []\<rparr>,
            \<lparr>u = BinaryOp B_MUL 7 6, shape = [2, 3], strides = [3, 1]\<rparr>]\<rparr>)"
proof -
  note inst = min_is_neg_max_neg [of LeftToRight 0 1
      "snd (AddInput [1, 3] (snd (AddInput [2, 1] empty_graph)))" "[2, 3]"]
  have b: "GetBroadcastedShape [2, 1] [1, 3] = Inr [2, 3]"
    by (simp add: GetBroadcastedShape_def upt_rec)
  have 1: "min_hh LeftToRight 0 1 (snd (AddInput [1, 3] (snd (AddInput [2, 1] empty_graph)))) =
     hand_neg_max_neg LeftToRight 0 1 (snd (AddInput [1, 3] (snd (AddInput [2, 1] empty_graph))))"
    using inst by (rule conjunct1)
  have 2: "min_hh LeftToRight 0 1 (snd (AddInput [1, 3] (snd (AddInput [2, 1] empty_graph)))) =
       (Inr 8,
        \<lparr>inputs = [0, 1],
         nodes =
           [\<lparr>u = Tensor, shape = [2, 1], strides = [1, 0]\<rparr>,
            \<lparr>u = Tensor, shape = [1, 3], strides = [0, 1]\<rparr>,
            \<lparr>u = Immediate (- 1), shape = [], strides = []\<rparr>,
            \<lparr>u = BinaryOp B_MUL 2 0, shape = [2, 1], strides = [1, 0]\<rparr>,
            \<lparr>u = Immediate (- 1), shape = [], strides = []\<rparr>,
            \<lparr>u = BinaryOp B_MUL 4 1, shape = [1, 3], strides = [0, 1]\<rparr>,
            \<lparr>u = BinaryOp B_MAX 3 5, shape = [2, 3], strides = [3, 1]\<rparr>,
            \<lparr>u = Immediate (- 1), shape = [], strides = []\<rparr>,
            \<lparr>u = BinaryOp B_MUL 7 6, shape = [2, 3], strides = [3, 1]\<rparr>]\<rparr>)"
    using inst [THEN conjunct2] b
    by (simp add: build_defs empty_graph_def ComputeStrides_def upt_rec eval_nat_numeral)
  show ?thesis
    by (intro conjI) (rule 1, rule b, rule 2)
qed

section \<open>More of the broadcast algebra\<close>







section \<open>The result of a call on valid handles\<close>






























section \<open>A call that throws a domain error\<close>

























end
